theory Spec2Isabelle
  imports Complex_Main "HOL-Library.Sublist"
begin

section \<open>The example scripts: process state and Python control flow\<close>

text \<open>
  The scripts under \<^verbatim>\<open>examples/python/fob-simple\<close> drive the bundler through its
  Python binding. What they do to the process is small: \<^verbatim>\<open>bundler.py\<close> changes the
  working directory around one call, \<^verbatim>\<open>inline_content.py\<close> creates a temporary
  directory and removes it again. Both talk to the operating system and to the
  standard streams, and each of those calls can fail. An exception is raised by a call;
  a signal delivered between two calls is outside the model.
\<close>

text \<open>
  Python exceptions, each with the text \<^verbatim>\<open>str(e)\<close> gives. \<open>OSError\<close> stands for the
  class and its subclasses (\<^verbatim>\<open>FileNotFoundError\<close>, \<^verbatim>\<open>PermissionError\<close>,
  \<^verbatim>\<open>BrokenPipeError\<close>, ...), \<open>OtherException\<close> for every other subclass of
  \<^verbatim>\<open>Exception\<close> (\<^verbatim>\<open>UnicodeEncodeError\<close>, \<^verbatim>\<open>RecursionError\<close>, ...).
  \<^verbatim>\<open>SystemExit\<close> (raised by \<^verbatim>\<open>sys.exit\<close>), \<^verbatim>\<open>KeyboardInterrupt\<close> and
  \<^verbatim>\<open>asyncio.CancelledError\<close> derive from \<^verbatim>\<open>BaseException\<close> only, so an
  \<^verbatim>\<open>except Exception\<close> clause lets them pass.
\<close>

datatype py_exn =
    FobError string
  | OSError string
  | IndexError string
  | OtherException string
  | SystemExit int
  | KeyboardInterrupt
  | CancelledError

fun is_FobError :: "py_exn \<Rightarrow> bool" where
  "is_FobError (FobError _) = True"
| "is_FobError _ = False"

fun is_OSError :: "py_exn \<Rightarrow> bool" where
  "is_OSError (OSError _) = True"
| "is_OSError _ = False"

fun is_Exception :: "py_exn \<Rightarrow> bool" where
  "is_Exception (SystemExit _) = False"
| "is_Exception KeyboardInterrupt = False"
| "is_Exception CancelledError = False"
| "is_Exception _ = True"

text \<open>\<^verbatim>\<open>str(e)\<close> for the exceptions an \<^verbatim>\<open>except ... as e\<close> clause of the scripts can
  bind.\<close>

fun exn_str :: "py_exn \<Rightarrow> string" where
  "exn_str (FobError m) = m"
| "exn_str (OSError m) = m"
| "exn_str (IndexError m) = m"
| "exn_str (OtherException m) = m"
| "exn_str _ = []"

text \<open>
  The state of the process and of the system around it, as far as the scripts touch it:

    \<^item> \<open>cwd\<close>, the working directory, by its absolute path;
    \<^item> \<open>dirs\<close>, the paths that exist (directories, and the files below them);
    \<^item> \<open>chdir_result p\<close>, what the system answers to \<^verbatim>\<open>chdir(p)\<close> at this moment:
      the exception raised (nothing at \<open>p\<close>, not a directory, search permission
      denied on a component, name too long, ...), or the absolute path of the directory
      entered, symbolic links followed;
    \<^item> \<open>removal p\<close>, what removing the empty directory or the file \<open>p\<close> raises at this
      moment, \<open>None\<close> when it is removed;
    \<^item> \<open>stdout_error text\<close>, what writing \<open>text\<close> to the standard output raises
      (the stream is closed, its encoding has no code for a character, ...), \<open>None\<close>
      when it is written; \<open>stderr_error\<close>, the same for the standard error stream.

  The binding's calls are arbitrary functions of this state, so a call may change any
  of it.
\<close>

record os_state =
  cwd :: string
  dirs :: "string list"
  chdir_result :: "string \<Rightarrow> py_exn + string"
  removal :: "string \<Rightarrow> py_exn option"
  stdout_error :: "string \<Rightarrow> py_exn option"
  stderr_error :: "py_exn option"

type_synonym 'a io = "os_state \<Rightarrow> (py_exn + 'a) \<times> os_state"

definition io_return :: "'a \<Rightarrow> 'a io" where
  "io_return v s = (Inr v, s)"

definition io_bind :: "'a io \<Rightarrow> ('a \<Rightarrow> 'b io) \<Rightarrow> 'b io" where
  "io_bind m f s = (case m s of (Inl e, s1) \<Rightarrow> (Inl e, s1) | (Inr v, s1) \<Rightarrow> f v s1)"

text \<open>
  \<^verbatim>\<open>try: body finally: fin\<close>. The \<^verbatim>\<open>finally\<close> suite runs whether the body
  returned or raised; when the suite itself raises, that exception replaces the body's
  outcome, otherwise the body's outcome stands.
\<close>

definition try_finally :: "'a io \<Rightarrow> unit io \<Rightarrow> 'a io" where
  "try_finally body fin s =
     (case body s of (r, s1) \<Rightarrow>
        (case fin s1 of (Inl e, s2) \<Rightarrow> (Inl e, s2) | (Inr _, s2) \<Rightarrow> (r, s2)))"

text \<open>
  \<^verbatim>\<open>try: body except fob.FobError as e: h1 except Exception as e: h2\<close>. The first
  clause whose class the exception belongs to runs; what a handler raises propagates
  (the clauses guard the body only); an exception that is not an \<^verbatim>\<open>Exception\<close>
  propagates.
\<close>

definition try_except :: "'a io \<Rightarrow> (py_exn \<Rightarrow> 'a io) \<Rightarrow> (py_exn \<Rightarrow> 'a io) \<Rightarrow> 'a io" where
  "try_except body on_fob_error on_exception s =
     (case body s of
        (Inl e, s1) \<Rightarrow>
          if is_FobError e then on_fob_error e s1
          else if is_Exception e then on_exception e s1
          else (Inl e, s1)
      | (Inr v, s1) \<Rightarrow> (Inr v, s1))"

subsection \<open>The library calls the scripts make\<close>

text \<open>
  \<^verbatim>\<open>os.getcwd()\<close> raises when the working directory no longer exists.
  \<^verbatim>\<open>os.chdir(p)\<close> raises what the system answers and leaves the working directory as
  it was, or enters the directory the system resolved \<open>p\<close> to.
\<close>

definition os_getcwd :: "string io" where
  "os_getcwd s =
     (if cwd s \<in> set (dirs s) then (Inr (cwd s), s) else (Inl (OSError ''ENOENT''), s))"

definition os_chdir :: "string \<Rightarrow> unit io" where
  "os_chdir p s =
     (case chdir_result s p of
        Inl e \<Rightarrow> (Inl e, s)
      | Inr d \<Rightarrow> (Inr (), s\<lparr>cwd := d\<rparr>))"

text \<open>\<^verbatim>\<open>print(text)\<close>: the text is written to the standard output, or the write raises.
  What has been written is not kept.\<close>

definition py_print :: "string \<Rightarrow> unit io" where
  "py_print text s = (case stdout_error s text of None \<Rightarrow> (Inr (), s) | Some e \<Rightarrow> (Inl e, s))"

text \<open>\<^verbatim>\<open>traceback.print_exc()\<close> writes to the standard error stream.\<close>

definition traceback_print_exc :: "unit io" where
  "traceback_print_exc s = (case stderr_error s of None \<Rightarrow> (Inr (), s) | Some e \<Rightarrow> (Inl e, s))"

definition sys_exit :: "int \<Rightarrow> 'a io" where
  "sys_exit n s = (Inl (SystemExit n), s)"

text \<open>
  \<^verbatim>\<open>tempfile.mkdtemp(prefix=...)\<close> creates a directory under a name the system picks
  (\<open>name\<close>, which starts with the prefix) and returns the name.
\<close>

definition tempfile_mkdtemp :: "string \<Rightarrow> string io" where
  "tempfile_mkdtemp name s =
     (if name \<in> set (dirs s) then (Inl (OSError ''EEXIST''), s)
      else (Inr name, s\<lparr>dirs := name # dirs s\<rparr>))"

text \<open>\<open>in_tree t p\<close>: the path \<open>p\<close> is \<open>t\<close> or lies below it.\<close>

definition in_tree :: "string \<Rightarrow> string \<Rightarrow> bool" where
  "in_tree t p = (p = t \<or> prefix (t @ ''/'') p)"

text \<open>
  \<^verbatim>\<open>shutil.rmtree(t, ignore_errors=True)\<close> walks the tree at \<open>t\<close> and removes what it
  finds, everything below a directory before the directory itself. An \<^verbatim>\<open>OSError\<close>
  of a removal is ignored and the walk goes on, so the path stays, and with it the
  directories above it, whose removal fails because they are not empty. Any other
  exception ends the walk and propagates. A missing \<open>t\<close> is an ignored error, and so
  is a directory that cannot be listed: the removal of what is below it counts as
  failed.

  The walk is given as the list of the paths to remove. Among paths of which none lies
  below the other the order is that of \<open>sort_key\<close>; it decides only what has been removed
  already when an exception propagates.
\<close>

fun rmtree_walk :: "string list \<Rightarrow> unit io" where
  "rmtree_walk [] s = (Inr (), s)"
| "rmtree_walk (p # ps) s =
     (case removal s p of
        Some e \<Rightarrow> if is_OSError e then rmtree_walk ps s else (Inl e, s)
      | None \<Rightarrow>
          if \<exists>q \<in> set (dirs s). q \<noteq> p \<and> in_tree p q then rmtree_walk ps s
          else rmtree_walk ps (s\<lparr>dirs := removeAll p (dirs s)\<rparr>))"

definition bottom_up :: "string list \<Rightarrow> string list" where
  "bottom_up ps = rev (sort_key length ps)"

definition shutil_rmtree :: "string \<Rightarrow> unit io" where
  "shutil_rmtree t s = rmtree_walk (bottom_up (filter (in_tree t) (dirs s))) s"

text \<open>\<^verbatim>\<open>str(d / name)\<close> for a \<^verbatim>\<open>pathlib\<close> path \<open>d\<close>: a root (\<^verbatim>\<open>/\<close> or \<^verbatim>\<open>//\<close>) ends
  with the separator already.\<close>

definition path_join :: "string \<Rightarrow> string \<Rightarrow> string" where
  "path_join d name = (if d \<noteq> [] \<and> last d = CHR ''/'' then d @ name else d @ ''/'' @ name)"

text \<open>The decimal digits of a number, as an f-string formats it.\<close>

fun str_nat :: "nat \<Rightarrow> string" where
  "str_nat n =
     (if n < 10 then [char_of (48 + n)]
      else str_nat (n div 10) @ [char_of (48 + n mod 10)])"

declare str_nat.simps [simp del]

subsection \<open>What the binding returns\<close>

text \<open>
  The dictionaries of a build result, with the keys the scripts read (a chunk's
  \<^verbatim>\<open>size\<close> is the field \<open>chunk_size\<close>); \<open>modules\<close> and \<open>depends_on\<close> are among the
  further keys of a chunk.
\<close>

record chunk =
  modules :: "string list"
  file_name :: string
  chunk_size :: nat
  depends_on :: "string list"

record asset =
  relative_path :: string
  asset_size :: nat

record build_stats =
  total_modules :: nat
  total_chunks :: nat
  total_size :: nat
  duration_ms :: nat
  cache_hit_rate :: real

record build_result =
  chunks :: "chunk list"
  assets :: "asset list"
  stats :: build_stats

text \<open>An entry of a configuration: a file path, or inline content with a name and an
  optional loader.\<close>

datatype entry_spec =
    FilePath string
  | Inline string string "string option"

record fob_config =
  entries :: "entry_spec list"
  output_dir :: string
  format :: string

subsection \<open>\<^verbatim>\<open>bundler.py\<close>: the block around \<^verbatim>\<open>bundle_single\<close>\<close>

text \<open>
  Lines 41 to 51 of \<^verbatim>\<open>main\<close>. \<open>bundle_single\<close> is the binding's call, whose code is not
  part of the scripts: any function of the state, returning a result or raising.
\<close>

definition chdir_bundle_restore :: "build_result io \<Rightarrow> string \<Rightarrow> build_result io" where
  "chdir_bundle_restore bundle_single script_dir =
     io_bind os_getcwd (\<lambda>original_cwd.
     io_bind (os_chdir script_dir) (\<lambda>_.
     try_finally bundle_single (os_chdir original_cwd)))"

subsection \<open>\<^verbatim>\<open>inline_content.py\<close>: \<^verbatim>\<open>main\<close>\<close>

text \<open>The pictographs of the messages, as the bytes of their UTF-8 encoding.\<close>

definition rocket :: string where
  "rocket = [CHR 0xF0, CHR 0x9F, CHR 0x9A, CHR 0x80]"

definition file_folder :: string where
  "file_folder = [CHR 0xF0, CHR 0x9F, CHR 0x93, CHR 0x81]"

definition check_mark :: string where
  "check_mark = [CHR 0xE2, CHR 0x9C, CHR 0x85]"

definition bar_chart :: string where
  "bar_chart = [CHR 0xF0, CHR 0x9F, CHR 0x93, CHR 0x8A]"

definition cross_mark :: string where
  "cross_mark = [CHR 0xE2, CHR 0x9D, CHR 0x8C]"

definition broom :: string where
  "broom = [CHR 0xF0, CHR 0x9F, CHR 0xA7, CHR 0xB9]"

definition newline :: string where
  "newline = [CHR 0x0A]"

text \<open>\<^verbatim>\<open>result["chunks"][0]\<close> raises \<^verbatim>\<open>IndexError\<close> on an empty list.\<close>

definition first_chunk :: "build_result \<Rightarrow> chunk io" where
  "first_chunk r s =
     (case chunks r of
        [] \<Rightarrow> (Inl (IndexError ''list index out of range''), s)
      | c # _ \<Rightarrow> (Inr c, s))"

text \<open>Lines 49 and 106.\<close>

definition print_generated :: "chunk \<Rightarrow> unit io" where
  "print_generated c =
     py_print (check_mark @ '' Generated: '' @ file_name c @ '' ('' @ str_nat (chunk_size c)
               @ '' bytes)'' @ newline)"

text \<open>The loops of lines 69 to 70 and 89 to 90.\<close>

fun print_chunks :: "chunk list \<Rightarrow> unit io" where
  "print_chunks [] = io_return ()"
| "print_chunks (c # cs) =
     io_bind (py_print (''  - '' @ file_name c @ '' ('' @ str_nat (chunk_size c) @ '' bytes)''))
       (\<lambda>_. print_chunks cs)"

text \<open>Lines 110 to 113.\<close>

definition print_summary :: "string \<Rightarrow> build_result \<Rightarrow> unit io" where
  "print_summary n r =
     py_print (''  Test '' @ n @ '': '' @ str_nat (total_modules (stats r)) @ '' modules, ''
               @ str_nat (total_size (stats r)) @ '' bytes'')"

definition test1_config :: "string \<Rightarrow> fob_config" where
  "test1_config temp_dir =
     \<lparr>entries = [Inline ''console.log('Hello from Python inline content!');'' ''main.js'' None],
      output_dir = temp_dir @ ''/test1'', format = ''esm''\<rparr>"

definition test2_config :: "string \<Rightarrow> fob_config" where
  "test2_config temp_dir =
     \<lparr>entries = [Inline ''console.log('Entry 1: Hello from inline!');'' ''entry1.js'' None,
                 Inline ''console.log('Entry 2: Another inline file!');'' ''entry2.js'' None],
      output_dir = temp_dir @ ''/test2'', format = ''esm''\<rparr>"

definition test3_config :: "string \<Rightarrow> string \<Rightarrow> fob_config" where
  "test3_config script_dir temp_dir =
     \<lparr>entries = [FilePath (path_join (path_join script_dir ''src'') ''index.js''),
                 Inline ''console.log('Plus inline content!');'' ''inline.js'' None],
      output_dir = temp_dir @ ''/test3'', format = ''esm''\<rparr>"

definition test4_config :: "string \<Rightarrow> fob_config" where
  "test4_config temp_dir =
     \<lparr>entries = [Inline ''const message: string = 'TypeScript works!'; console.log(message);''
                   ''typed.ts'' (Some ''ts'')],
      output_dir = temp_dir @ ''/test4'', format = ''esm''\<rparr>"

text \<open>
  The body of the \<^verbatim>\<open>try\<close>, lines 34 to 113. \<open>init_logging\<close> is
  \<^verbatim>\<open>fob.init_logging("info")\<close>, and \<open>fob_bundle cfg\<close> is \<^verbatim>\<open>fob.Fob(cfg)\<close> followed by
  \<^verbatim>\<open>await bundler.bundle()\<close>: calls of the binding, arbitrary functions of the state.
\<close>

definition inline_tests ::
  "unit io \<Rightarrow> (fob_config \<Rightarrow> build_result io) \<Rightarrow> string \<Rightarrow> string \<Rightarrow> unit io" where
  "inline_tests init_logging fob_bundle script_dir temp_dir =
     io_bind init_logging (\<lambda>_.
     io_bind (py_print ''Test 1: Single inline content entry'') (\<lambda>_.
     io_bind (fob_bundle (test1_config temp_dir)) (\<lambda>result1.
     io_bind (first_chunk result1) (\<lambda>chunk1.
     io_bind (print_generated chunk1) (\<lambda>_.
     io_bind (py_print ''Test 2: Multiple inline content entries'') (\<lambda>_.
     io_bind (fob_bundle (test2_config temp_dir)) (\<lambda>result2.
     io_bind (py_print (check_mark @ '' Chunks generated:'')) (\<lambda>_.
     io_bind (print_chunks (chunks result2)) (\<lambda>_.
     io_bind (py_print []) (\<lambda>_.
     io_bind (py_print ''Test 3: Mixed inline content and file path'') (\<lambda>_.
     io_bind (fob_bundle (test3_config script_dir temp_dir)) (\<lambda>result3.
     io_bind (py_print (check_mark @ '' Chunks generated:'')) (\<lambda>_.
     io_bind (print_chunks (chunks result3)) (\<lambda>_.
     io_bind (py_print []) (\<lambda>_.
     io_bind (py_print ''Test 4: TypeScript inline content'') (\<lambda>_.
     io_bind (fob_bundle (test4_config temp_dir)) (\<lambda>result4.
     io_bind (first_chunk result4) (\<lambda>chunk4.
     io_bind (print_generated chunk4) (\<lambda>_.
     io_bind (py_print (check_mark @ '' All tests passed!'' @ newline)) (\<lambda>_.
     io_bind (py_print (bar_chart @ '' Summary:'')) (\<lambda>_.
     io_bind (print_summary ''1'' result1) (\<lambda>_.
     io_bind (print_summary ''2'' result2) (\<lambda>_.
     io_bind (print_summary ''3'' result3) (\<lambda>_.
     print_summary ''4'' result4))))))))))))))))))))))))"

text \<open>The handlers, lines 115 to 117 and 118 to 122.\<close>

definition on_fob_error :: "py_exn \<Rightarrow> unit io" where
  "on_fob_error e =
     io_bind (py_print (cross_mark @ '' Test failed: '' @ exn_str e)) (\<lambda>_. sys_exit 1)"

definition on_exception :: "py_exn \<Rightarrow> unit io" where
  "on_exception e =
     io_bind (py_print (cross_mark @ '' Unexpected error: '' @ exn_str e)) (\<lambda>_.
     io_bind traceback_print_exc (\<lambda>_. sys_exit 1))"

text \<open>The \<^verbatim>\<open>try\<close> with its two \<^verbatim>\<open>except\<close> clauses, lines 33 to 122.\<close>

definition guarded_tests ::
  "unit io \<Rightarrow> (fob_config \<Rightarrow> build_result io) \<Rightarrow> string \<Rightarrow> string \<Rightarrow> unit io" where
  "guarded_tests init_logging fob_bundle script_dir temp_dir =
     try_except (inline_tests init_logging fob_bundle script_dir temp_dir)
       on_fob_error on_exception"

text \<open>The texts of lines 27, 31 and 125.\<close>

definition testing_message :: string where
  "testing_message = rocket @ '' Testing inline content with Fob (Python)...'' @ newline"

definition output_directory_message :: "string \<Rightarrow> string" where
  "output_directory_message temp_dir = file_folder @ '' Output directory: '' @ temp_dir @ newline"

definition cleaning_up_message :: "string \<Rightarrow> string" where
  "cleaning_up_message temp_dir = newline @ broom @ '' Cleaning up '' @ temp_dir"

text \<open>The \<^verbatim>\<open>finally\<close> suite, lines 125 and 126.\<close>

definition clean_up :: "string \<Rightarrow> unit io" where
  "clean_up temp_dir =
     io_bind (py_print (cleaning_up_message temp_dir)) (\<lambda>_. shutil_rmtree temp_dir)"

text \<open>The whole of \<^verbatim>\<open>main\<close>, lines 27 to 126; \<open>name\<close> is the name \<^verbatim>\<open>mkdtemp\<close> picks.\<close>

definition inline_content_main ::
  "unit io \<Rightarrow> (fob_config \<Rightarrow> build_result io) \<Rightarrow> string \<Rightarrow> string \<Rightarrow> unit io" where
  "inline_content_main init_logging fob_bundle script_dir name =
     io_bind (py_print testing_message) (\<lambda>_.
     io_bind (tempfile_mkdtemp name) (\<lambda>temp_dir.
     io_bind (py_print (output_directory_message temp_dir)) (\<lambda>_.
     try_finally (guarded_tests init_logging fob_bundle script_dir temp_dir)
       (clean_up temp_dir))))"

subsection \<open>Example runs\<close>

text \<open>A system in which \<^verbatim>\<open>chdir\<close> enters exactly the directories of a listing, by their
  own names.\<close>

definition plain_chdir :: "string list \<Rightarrow> string \<Rightarrow> py_exn + string" where
  "plain_chdir ds p = (if p \<in> set ds then Inr p else Inl (OSError ''ENOENT''))"

text \<open>A process started in \<^verbatim>\<open>/home/u\<close>; every removal and every write goes through.\<close>

definition example_start :: os_state where
  "example_start =
     \<lparr>cwd = ''/home/u'', dirs = [''/home/u'', ''/repo/ex'', ''/tmp''],
      chdir_result = plain_chdir [''/home/u'', ''/repo/ex'', ''/tmp''],
      removal = (\<lambda>p. None), stdout_error = (\<lambda>text. None), stderr_error = None\<rparr>"

text \<open>A \<^verbatim>\<open>bundle_single\<close> that moves to \<^verbatim>\<open>/tmp\<close> and raises.\<close>

definition bundle_moving_away :: "build_result io" where
  "bundle_moving_away s = (Inl (FobError ''boom''), s\<lparr>cwd := ''/tmp''\<rparr>)"

text \<open>A \<^verbatim>\<open>bundle_single\<close> during which the directory the script was started from is
  removed, and which raises.\<close>

definition bundle_removing_home :: "build_result io" where
  "bundle_removing_home s =
     (Inl (FobError ''boom''),
      s\<lparr>dirs := removeAll ''/home/u'' (dirs s),
        chdir_result := plain_chdir (removeAll ''/home/u'' (dirs s))\<rparr>)"

text \<open>The result of bundling one inline entry \<^verbatim>\<open>main.js\<close>.\<close>

definition one_chunk_result :: build_result where
  "one_chunk_result =
     \<lparr>chunks = [\<lparr>modules = [''<inline>:main.js''], file_name = ''main.js'', chunk_size = 49,
                 depends_on = []\<rparr>],
      assets = [],
      stats = \<lparr>total_modules = 1, total_chunks = 1, total_size = 49, duration_ms = 3,
               cache_hit_rate = 0\<rparr>\<rparr>"

text \<open>A bundler that writes the output of the first test and fails at every other
  configuration.\<close>

definition bundle_first_only :: "fob_config \<Rightarrow> build_result io" where
  "bundle_first_only cfg s =
     (if output_dir cfg = ''/tmp/fob-inline-test-a1/test1''
      then (Inr one_chunk_result,
            s\<lparr>dirs := (output_dir cfg @ ''/main.js'') # output_dir cfg # dirs s\<rparr>)
      else (Inl (FobError ''failed''), s))"

text \<open>The same bundler, writing a file that cannot be removed afterwards.\<close>

definition bundle_first_locked :: "fob_config \<Rightarrow> build_result io" where
  "bundle_first_locked cfg s =
     (if output_dir cfg = ''/tmp/fob-inline-test-a1/test1''
      then (Inr one_chunk_result,
            s\<lparr>dirs := (output_dir cfg @ ''/main.js'') # output_dir cfg # dirs s,
              removal := (\<lambda>p. if p = ''/tmp/fob-inline-test-a1/test1/main.js''
                                then Some (OSError ''EACCES'') else removal s p)\<rparr>)
      else (Inl (FobError ''failed''), s))"

text \<open>A bundler that fails at once, and after which the standard output is closed.\<close>

definition bundle_closing_stdout :: "fob_config \<Rightarrow> build_result io" where
  "bundle_closing_stdout cfg s =
     (Inl (FobError ''failed''), s\<lparr>stdout_error := (\<lambda>text. Some (OSError ''EPIPE''))\<rparr>)"

section \<open>The dependency resolver\<close>

text \<open>
  The engine behind \<^verbatim>\<open>fob.Fob(...).bundle()\<close> and \<^verbatim>\<open>fob.bundle_single\<close> is not among
  the source files, which are the example scripts that call it. Of its parts the
  resolver is given here, modelled from section 4.2 of the specification; the files that
  exist and the dependencies of the package manifest are inputs.
\<close>

subsection \<open>Data model\<close>

text \<open>Modelled from the spec: \<^verbatim>\<open>ModuleId\<close> (section 3), a canonical absolute path or
  \<^verbatim>\<open><inline>:name\<close>; no engine code is among the source files.\<close>

type_synonym ModuleId = string


text \<open>Modelled from the spec: the reasons of a \<^verbatim>\<open>ResolutionError\<close> (section 4.2).\<close>

datatype ResolutionReason = NotFound | AmbiguousExtension | NoPackageEntry

text \<open>Modelled from the spec: the error taxonomy (section 7). A resolution error carries the
  specifier and the importer, a transform error and an I/O error the module.\<close>

datatype BuildError =
    ResolutionError string ModuleId ResolutionReason
  | TransformError ModuleId string
  | IOError ModuleId
  | ConfigurationError string

subsection \<open>Paths\<close>






subsection \<open>Dependency Resolver\<close>














section \<open>Properties of the scripts\<close>

subsection \<open>Control flow\<close>

lemma try_finally_returns:
  "fin (snd (body s)) = (Inr (), s2) \<Longrightarrow> try_finally body fin s = (fst (body s), s2)"
  by (cases "body s") (simp add: try_finally_def)

lemma try_finally_raises:
  "fin (snd (body s)) = (Inl e, s2) \<Longrightarrow> try_finally body fin s = (Inl e, s2)"
  by (cases "body s") (simp add: try_finally_def)

subsection \<open>Removing a tree\<close>

lemma in_tree_trans: "in_tree t p \<Longrightarrow> in_tree p q \<Longrightarrow> in_tree t q"
proof -
  assume tp: "in_tree t p" and pq: "in_tree p q"
  show ?thesis
  proof (cases "p = t \<or> q = p")
    case True
    with tp pq show ?thesis by auto
  next
    case False
    with tp pq have a: "prefix (t @ ''/'') p" and b: "prefix (p @ ''/'') q"
      by (auto simp: in_tree_def)
    from b have "prefix p q"
      by (metis append_prefixD)
    with a have "prefix (t @ ''/'') q"
      by (rule prefix_order.trans)
    then show ?thesis by (simp add: in_tree_def)
  qed
qed

lemma in_tree_longer: "in_tree p q \<Longrightarrow> q \<noteq> p \<Longrightarrow> length p < length q"
proof -
  assume "in_tree p q" and "q \<noteq> p"
  then have "prefix (p @ ''/'') q" by (auto simp: in_tree_def)
  then have "length (p @ ''/'') \<le> length q" by (rule prefix_length_le)
  then show ?thesis by simp
qed

lemma bottom_up_set: "set (bottom_up ps) = set ps"
  by (simp add: bottom_up_def)

lemma bottom_up_order: "sorted_wrt (\<lambda>p q. \<not> (q \<noteq> p \<and> in_tree p q)) (bottom_up ps)"
proof -
  have "sorted (map length (sort_key length ps))"
    by (rule sorted_sort_key)
  then have "sorted_wrt (\<lambda>p q. length p \<le> length q) (sort_key length ps)"
    by (simp add: sorted_wrt_map)
  then have "sorted_wrt (\<lambda>p q. length q \<le> length p) (bottom_up ps)"
    by (simp add: bottom_up_def sorted_wrt_rev)
  then show ?thesis
    by (rule sorted_wrt_mono_rel [rotated]) (auto dest: in_tree_longer)
qed

text \<open>When every path of the walk can be removed and the walk holds everything that
  exists below its paths, the walk returns and has removed exactly its paths.\<close>

lemma rmtree_walk_removes:
  assumes "sorted_wrt (\<lambda>p q. \<not> (q \<noteq> p \<and> in_tree p q)) ps"
    and "\<forall>p\<in>set ps. removal s p = None"
    and "\<forall>p\<in>set ps. \<forall>q\<in>set (dirs s). in_tree p q \<longrightarrow> q \<in> set ps"
  shows "rmtree_walk ps s = (Inr (), s\<lparr>dirs := filter (\<lambda>q. q \<notin> set ps) (dirs s)\<rparr>)"
  using assms
proof (induction ps arbitrary: s)
  case Nil
  show ?case by simp
next
  case (Cons p ps)
  let ?s = "s\<lparr>dirs := removeAll p (dirs s)\<rparr>"
  have empty: "\<not> (\<exists>q\<in>set (dirs s). q \<noteq> p \<and> in_tree p q)"
  proof
    assume "\<exists>q\<in>set (dirs s). q \<noteq> p \<and> in_tree p q"
    then obtain q where q: "q \<in> set (dirs s)" "q \<noteq> p" "in_tree p q" by blast
    with Cons.prems(3) have "q \<in> set ps" by auto
    with Cons.prems(1) q show False by auto
  qed
  have "rmtree_walk ps ?s = (Inr (), ?s\<lparr>dirs := filter (\<lambda>q. q \<notin> set ps) (dirs ?s)\<rparr>)"
  proof (rule Cons.IH)
    show "sorted_wrt (\<lambda>p q. \<not> (q \<noteq> p \<and> in_tree p q)) ps"
      using Cons.prems(1) by simp
    show "\<forall>p\<in>set ps. removal ?s p = None"
      using Cons.prems(2) by simp
    show "\<forall>p'\<in>set ps. \<forall>q\<in>set (dirs ?s). in_tree p' q \<longrightarrow> q \<in> set ps"
      using Cons.prems(3) by auto
  qed
  moreover have "filter (\<lambda>q. q \<notin> set ps) (removeAll p (dirs s))
                 = filter (\<lambda>q. q \<notin> set (p # ps)) (dirs s)"
    by (induction "dirs s" arbitrary: s) (auto simp: removeAll_filter_not_eq intro: filter_cong)
  moreover have "rmtree_walk (p # ps) s = rmtree_walk ps ?s"
    using empty Cons.prems(2) by auto
  ultimately show ?case
    by simp
qed

lemma shutil_rmtree_removes_all:
  assumes "\<forall>p\<in>set (dirs s). in_tree t p \<longrightarrow> removal s p = None"
  shows "shutil_rmtree t s = (Inr (), s\<lparr>dirs := filter (\<lambda>p. \<not> in_tree t p) (dirs s)\<rparr>)"
proof -
  let ?ps = "bottom_up (filter (in_tree t) (dirs s))"
  have "rmtree_walk ?ps s = (Inr (), s\<lparr>dirs := filter (\<lambda>q. q \<notin> set ?ps) (dirs s)\<rparr>)"
  proof (rule rmtree_walk_removes)
    show "sorted_wrt (\<lambda>p q. \<not> (q \<noteq> p \<and> in_tree p q)) ?ps"
      by (rule bottom_up_order)
    show "\<forall>p\<in>set ?ps. removal s p = None"
      using assms by (simp add: bottom_up_set)
    show "\<forall>p\<in>set ?ps. \<forall>q\<in>set (dirs s). in_tree p q \<longrightarrow> q \<in> set ?ps"
      by (auto simp: bottom_up_set intro: in_tree_trans)
  qed
  moreover have "filter (\<lambda>q. q \<notin> set ?ps) (dirs s) = filter (\<lambda>p. \<not> in_tree t p) (dirs s)"
    by (rule filter_cong) (auto simp: bottom_up_set)
  ultimately show ?thesis
    by (simp add: shutil_rmtree_def)
qed

lemma in_tree_self: "in_tree t t"
  by (simp add: in_tree_def)

subsection \<open>\<^verbatim>\<open>bundler.py\<close>: the working directory\<close>

text \<open>Once the directory is saved and the script directory entered, what is left of the
  block is the \<^verbatim>\<open>try ... finally\<close>.\<close>

lemma chdir_bundle_restore_try:
  assumes "cwd s \<in> set (dirs s)" and "chdir_result s script_dir = Inr d"
  shows "chdir_bundle_restore bundle_single script_dir s =
           try_finally bundle_single (os_chdir (cwd s)) (s\<lparr>cwd := d\<rparr>)"
  using assms by (simp add: chdir_bundle_restore_def io_bind_def os_getcwd_def os_chdir_def)

text \<open>
  C9. In \<^verbatim>\<open>bundler.py\<close>, once \<^verbatim>\<open>bundle_single\<close> has been invoked (the directory was
  saved and the change to the script directory went through), the restoring
  \<^verbatim>\<open>os.chdir(original_cwd)\<close> runs whether \<^verbatim>\<open>bundle_single\<close> returned or raised and
  whatever it did to the process. When the system then still resolves the saved path
  to the saved directory, the working directory after the block is the saved one, the
  outcome of the block is the outcome of \<^verbatim>\<open>bundle_single\<close>, and nothing else of the
  state \<^verbatim>\<open>bundle_single\<close> left is changed. The condition is needed: the restoring call
  is a system call like any other.
\<close>

theorem chdir_bundle_restore_cwd:
  assumes "cwd s \<in> set (dirs s)"
    and "chdir_result s script_dir = Inr d"
    and "chdir_result (snd (bundle_single (s\<lparr>cwd := d\<rparr>))) (cwd s) = Inr (cwd s)"
  shows "chdir_bundle_restore bundle_single script_dir s =
           (fst (bundle_single (s\<lparr>cwd := d\<rparr>)),
            (snd (bundle_single (s\<lparr>cwd := d\<rparr>)))\<lparr>cwd := cwd s\<rparr>) \<and>
         cwd (snd (chdir_bundle_restore bundle_single script_dir s)) = cwd s"
proof -
  let ?s = "snd (bundle_single (s\<lparr>cwd := d\<rparr>))"
  have "os_chdir (cwd s) ?s = (Inr (), ?s\<lparr>cwd := cwd s\<rparr>)"
    using assms(3) by (simp add: os_chdir_def)
  then have "try_finally bundle_single (os_chdir (cwd s)) (s\<lparr>cwd := d\<rparr>) =
               (fst (bundle_single (s\<lparr>cwd := d\<rparr>)), ?s\<lparr>cwd := cwd s\<rparr>)"
    by (rule try_finally_returns)
  then show ?thesis
    using assms(1,2) by (simp add: chdir_bundle_restore_try)
qed

text \<open>A run in which \<^verbatim>\<open>bundle_single\<close> raises \<^verbatim>\<open>FobError\<close> after moving elsewhere: the
  process is back in \<^verbatim>\<open>/home/u\<close> and the \<^verbatim>\<open>FobError\<close> propagates.\<close>

theorem chdir_bundle_restore_cwd_witness:
  "cwd example_start = ''/home/u'' \<and>
   cwd (snd (bundle_moving_away (example_start\<lparr>cwd := ''/repo/ex''\<rparr>))) = ''/tmp'' \<and>
   cwd (snd (chdir_bundle_restore bundle_moving_away ''/repo/ex'' example_start)) = ''/home/u'' \<and>
   fst (chdir_bundle_restore bundle_moving_away ''/repo/ex'' example_start) =
     Inl (FobError ''boom'')"
  using chdir_bundle_restore_cwd
    [of example_start "''/repo/ex''" "''/repo/ex''" bundle_moving_away]
  by (simp add: example_start_def plain_chdir_def bundle_moving_away_def)

text \<open>
  Without the condition the working directory is not restored: when the saved
  directory is removed while \<^verbatim>\<open>bundle_single\<close> runs, the \<^verbatim>\<open>os.chdir\<close> of the
  \<^verbatim>\<open>finally\<close> suite raises, the process stays in the script directory, and the
  \<^verbatim>\<open>OSError\<close> replaces the \<^verbatim>\<open>FobError\<close>.
\<close>

theorem chdir_bundle_restore_cwd_not_restored:
  "cwd example_start = ''/home/u'' \<and>
   cwd (snd (chdir_bundle_restore bundle_removing_home ''/repo/ex'' example_start)) = ''/repo/ex'' \<and>
   cwd (snd (chdir_bundle_restore bundle_removing_home ''/repo/ex'' example_start))
     \<noteq> cwd example_start \<and>
   fst (chdir_bundle_restore bundle_removing_home ''/repo/ex'' example_start) =
     Inl (OSError ''ENOENT'')"
  by (simp add: chdir_bundle_restore_def io_bind_def os_getcwd_def os_chdir_def
      try_finally_def example_start_def plain_chdir_def bundle_removing_home_def)

text \<open>In general: when the restoring call raises, its exception is the outcome of the
  block and the process is where \<^verbatim>\<open>bundle_single\<close> left it.\<close>

lemma chdir_bundle_restore_raises:
  assumes "cwd s \<in> set (dirs s)"
    and "chdir_result s script_dir = Inr d"
    and "chdir_result (snd (bundle_single (s\<lparr>cwd := d\<rparr>))) (cwd s) = Inl e"
  shows "chdir_bundle_restore bundle_single script_dir s =
           (Inl e, snd (bundle_single (s\<lparr>cwd := d\<rparr>)))"
proof -
  let ?s = "snd (bundle_single (s\<lparr>cwd := d\<rparr>))"
  have "os_chdir (cwd s) ?s = (Inl e, ?s)"
    using assms(3) by (simp add: os_chdir_def)
  then have "try_finally bundle_single (os_chdir (cwd s)) (s\<lparr>cwd := d\<rparr>) = (Inl e, ?s)"
    by (rule try_finally_raises)
  then show ?thesis
    using assms(1,2) by (simp add: chdir_bundle_restore_try)
qed

subsection \<open>\<^verbatim>\<open>inline_content.py\<close>: the temporary directory\<close>

lemma clean_up_removes:
  assumes "stdout_error s (cleaning_up_message t) = None"
    and "\<forall>p\<in>set (dirs s). in_tree t p \<longrightarrow> removal s p = None"
  shows "clean_up t s = (Inr (), s\<lparr>dirs := filter (\<lambda>p. \<not> in_tree t p) (dirs s)\<rparr>)"
  using assms by (simp add: clean_up_def io_bind_def py_print_def shutil_rmtree_removes_all)

lemma clean_up_raises:
  assumes "stdout_error s (cleaning_up_message t) = Some e"
  shows "clean_up t s = (Inl e, s)"
  using assms by (simp add: clean_up_def io_bind_def py_print_def)

text \<open>Once the directory is made and announced, what is left of \<^verbatim>\<open>main\<close> is the
  \<^verbatim>\<open>try\<close> statement.\<close>

lemma inline_content_main_try:
  assumes "stdout_error s testing_message = None"
    and "tempfile_mkdtemp name s = (Inr temp_dir, s1)"
    and "stdout_error s1 (output_directory_message temp_dir) = None"
  shows "inline_content_main init_logging fob_bundle script_dir name s =
           try_finally (guarded_tests init_logging fob_bundle script_dir temp_dir)
             (clean_up temp_dir) s1"
  using assms by (simp add: inline_content_main_def io_bind_def py_print_def)

lemma tempfile_mkdtemp_creates:
  assumes "tempfile_mkdtemp name s = (Inr temp_dir, s1)"
  shows "temp_dir = name \<and> temp_dir \<notin> set (dirs s) \<and> s1 = s\<lparr>dirs := temp_dir # dirs s\<rparr>"
  using assms by (auto simp: tempfile_mkdtemp_def split: if_splits)

text \<open>
  C10. In \<^verbatim>\<open>inline_content.py\<close>, \<^verbatim>\<open>main\<close> creates the temporary directory (it did not
  exist before and exists after \<^verbatim>\<open>mkdtemp\<close>), and when the directory has been
  announced (line 31), the \<^verbatim>\<open>finally\<close> suite runs from the state \<open>s2\<close> the tests and
  the handlers left, whatever the outcome \<open>r\<close> of these was: all tests passed, a
  \<^verbatim>\<open>FobError\<close>, any other exception, one a handler raised. When the suite's own
  announcement (line 125) is written and everything that then exists in the tree can be
  removed, \<^verbatim>\<open>main\<close> ends with the outcome \<open>r\<close> in the state \<open>s2\<close> less the tree, so the
  directory is gone. The conditions are needed: \<^verbatim>\<open>print\<close> can raise, before the
  \<^verbatim>\<open>try\<close> and before \<^verbatim>\<open>shutil.rmtree\<close>, and with \<^verbatim>\<open>ignore_errors=True\<close> a failed
  removal is silent.
\<close>

theorem inline_content_main_removes_temp_dir:
  assumes "stdout_error s testing_message = None"
    and "tempfile_mkdtemp name s = (Inr temp_dir, s1)"
    and "stdout_error s1 (output_directory_message temp_dir) = None"
    and "guarded_tests init_logging fob_bundle script_dir temp_dir s1 = (r, s2)"
    and "stdout_error s2 (cleaning_up_message temp_dir) = None"
    and "\<forall>p\<in>set (dirs s2). in_tree temp_dir p \<longrightarrow> removal s2 p = None"
  shows "temp_dir \<notin> set (dirs s) \<and> temp_dir \<in> set (dirs s1) \<and>
         inline_content_main init_logging fob_bundle script_dir name s =
           (r, s2\<lparr>dirs := filter (\<lambda>p. \<not> in_tree temp_dir p) (dirs s2)\<rparr>) \<and>
         temp_dir \<notin> set (dirs (snd (inline_content_main init_logging fob_bundle script_dir name s)))"
proof -
  let ?tests = "guarded_tests init_logging fob_bundle script_dir temp_dir"
  let ?s = "s2\<lparr>dirs := filter (\<lambda>p. \<not> in_tree temp_dir p) (dirs s2)\<rparr>"
  have made: "temp_dir \<notin> set (dirs s) \<and> temp_dir \<in> set (dirs s1)"
    using tempfile_mkdtemp_creates [OF assms(2)] by auto
  have "clean_up temp_dir (snd (?tests s1)) = (Inr (), ?s)"
    using assms(4,5,6) by (simp add: clean_up_removes)
  then have "try_finally ?tests (clean_up temp_dir) s1 = (fst (?tests s1), ?s)"
    by (rule try_finally_returns)
  then have run: "inline_content_main init_logging fob_bundle script_dir name s = (r, ?s)"
    using assms(1,2,3,4) by (simp add: inline_content_main_try)
  have "temp_dir \<notin> set (dirs ?s)"
    by (simp add: in_tree_self)
  with made run show ?thesis
    by simp
qed

text \<open>The definitions a run of \<^verbatim>\<open>main\<close> unfolds to.\<close>

lemmas inline_run_defs =
  inline_content_main_def io_bind_def io_return_def py_print_def tempfile_mkdtemp_def
  try_finally_def guarded_tests_def try_except_def inline_tests_def first_chunk_def
  print_generated_def on_fob_error_def on_exception_def sys_exit_def traceback_print_exc_def
  clean_up_def test1_config_def test2_config_def one_chunk_result_def example_start_def

text \<open>The first test writes its output, the second fails; the handler exits.\<close>

lemma example_tests_run:
  "guarded_tests (io_return ()) bundle_first_only ''/repo/ex'' ''/tmp/fob-inline-test-a1''
     (example_start\<lparr>dirs := ''/tmp/fob-inline-test-a1'' # dirs example_start\<rparr>) =
   (Inl (SystemExit 1),
    example_start\<lparr>dirs := [''/tmp/fob-inline-test-a1/test1/main.js'',
                            ''/tmp/fob-inline-test-a1/test1'', ''/tmp/fob-inline-test-a1'',
                            ''/home/u'', ''/repo/ex'', ''/tmp'']\<rparr>)"
  by (simp add: inline_run_defs bundle_first_only_def)

text \<open>That run as a whole: \<^verbatim>\<open>main\<close> ends in \<^verbatim>\<open>SystemExit\<close>, and the system is as it
  was before, the directory and the output below it removed.\<close>

theorem inline_content_main_removes_temp_dir_witness:
  "''/tmp/fob-inline-test-a1'' \<notin> set (dirs example_start) \<and>
   inline_content_main (io_return ()) bundle_first_only ''/repo/ex''
     ''/tmp/fob-inline-test-a1'' example_start = (Inl (SystemExit 1), example_start)"
  using inline_content_main_removes_temp_dir
    [where s = example_start and name = "''/tmp/fob-inline-test-a1''"
       and temp_dir = "''/tmp/fob-inline-test-a1''"
       and ?s1.0 = "example_start\<lparr>dirs := ''/tmp/fob-inline-test-a1'' # dirs example_start\<rparr>",
     OF _ _ _ example_tests_run]
  by (simp add: tempfile_mkdtemp_def example_start_def in_tree_def)

text \<open>
  Without the conditions the directory is not removed on every path. In the first run
  the bundler has written a file that cannot be removed: \<^verbatim>\<open>shutil.rmtree\<close> ignores the
  error, and the directory is left with the file in it. In the second run the standard
  output is closed when the bundler fails: the \<^verbatim>\<open>print\<close> of the handler raises, the
  \<^verbatim>\<open>print\<close> of the \<^verbatim>\<open>finally\<close> suite raises, and \<^verbatim>\<open>shutil.rmtree\<close> is never called.
\<close>

theorem inline_content_main_leaves_temp_dir:
  "''/tmp/fob-inline-test-a1'' \<notin> set (dirs example_start) \<and>
   fst (inline_content_main (io_return ()) bundle_first_locked ''/repo/ex''
          ''/tmp/fob-inline-test-a1'' example_start) = Inl (SystemExit 1) \<and>
   dirs (snd (inline_content_main (io_return ()) bundle_first_locked ''/repo/ex''
          ''/tmp/fob-inline-test-a1'' example_start)) =
     [''/tmp/fob-inline-test-a1/test1/main.js'', ''/tmp/fob-inline-test-a1/test1'',
      ''/tmp/fob-inline-test-a1'', ''/home/u'', ''/repo/ex'', ''/tmp''] \<and>
   inline_content_main (io_return ()) bundle_closing_stdout ''/repo/ex''
     ''/tmp/fob-inline-test-a1'' example_start
   = (Inl (OSError ''EPIPE''),
      example_start\<lparr>dirs := ''/tmp/fob-inline-test-a1'' # dirs example_start,
                     stdout_error := (\<lambda>text. Some (OSError ''EPIPE''))\<rparr>)"
  by (simp add: inline_run_defs bundle_first_locked_def bundle_closing_stdout_def
      shutil_rmtree_def bottom_up_def in_tree_def)

text \<open>In general: when the \<^verbatim>\<open>print\<close> of line 31 raises, the \<^verbatim>\<open>try\<close> is never entered
  and the directory stays.\<close>

lemma inline_content_main_not_announced:
  assumes "stdout_error s testing_message = None"
    and "tempfile_mkdtemp name s = (Inr temp_dir, s1)"
    and "stdout_error s1 (output_directory_message temp_dir) = Some e"
  shows "inline_content_main init_logging fob_bundle script_dir name s = (Inl e, s1) \<and>
         temp_dir \<in> set (dirs s1)"
  using assms tempfile_mkdtemp_creates [OF assms(2)]
  by (auto simp: inline_content_main_def io_bind_def py_print_def)

text \<open>When the \<^verbatim>\<open>print\<close> of line 125 raises, \<^verbatim>\<open>shutil.rmtree\<close> is not called: \<^verbatim>\<open>main\<close>
  ends with that exception in the state the tests and the handlers left.\<close>

lemma inline_content_main_clean_up_raises:
  assumes "stdout_error s testing_message = None"
    and "tempfile_mkdtemp name s = (Inr temp_dir, s1)"
    and "stdout_error s1 (output_directory_message temp_dir) = None"
    and "guarded_tests init_logging fob_bundle script_dir temp_dir s1 = (r, s2)"
    and "stdout_error s2 (cleaning_up_message temp_dir) = Some e"
  shows "inline_content_main init_logging fob_bundle script_dir name s = (Inl e, s2)"
proof -
  let ?tests = "guarded_tests init_logging fob_bundle script_dir temp_dir"
  have "clean_up temp_dir (snd (?tests s1)) = (Inl e, s2)"
    using assms(4,5) by (simp add: clean_up_raises)
  then have "try_finally ?tests (clean_up temp_dir) s1 = (Inl e, s2)"
    by (rule try_finally_raises)
  then show ?thesis
    using assms(1,2,3) by (simp add: inline_content_main_try)
qed

section \<open>Properties of the resolver\<close>




end
